theory Spec2Isabelle
  imports Main "HOL-Library.AList" "HOL-Library.Sublist"
begin

section \<open>JavaScript strings and numbers\<close>

text \<open>
  Strings are \<open>string\<close> (8-bit characters); the text the platform handles is modelled as
  ASCII. Dates are their time value (milliseconds since the epoch); \<open>new Date()\<close> and
  \<open>randomUUID()\<close> are inputs of the operations that call them.
\<close>

type_synonym Date = int

text \<open>\<open>String(n)\<close> / template interpolation of a non-negative integer: its decimal digits.\<close>

definition digitChar :: "nat \<Rightarrow> char" where
  "digitChar d = ''0123456789'' ! d"

function toString :: "nat \<Rightarrow> string" where
  "toString n = (if n < 10 then [digitChar n] else toString (n div 10) @ [digitChar (n mod 10)])"
  by pat_completeness auto
termination
  by (relation "measure id") auto

declare toString.simps [simp del]

text \<open>\<open>String.prototype.toLowerCase\<close> on ASCII text.\<close>

definition lowerChar :: "char \<Rightarrow> char" where
  "lowerChar c =
     (case map_of (zip ''ABCDEFGHIJKLMNOPQRSTUVWXYZ'' ''abcdefghijklmnopqrstuvwxyz'') c of
        None \<Rightarrow> c
      | Some l \<Rightarrow> l)"

definition toLowerCase :: "string \<Rightarrow> string" where
  "toLowerCase s = map lowerChar s"

text \<open>\<open>s.startsWith(p)\<close>, \<open>s.indexOf(p)\<close> (\<open>None\<close> is -1) and \<open>s.includes(p)\<close> (\<open>includesStr\<close>).\<close>

fun startsWith :: "string \<Rightarrow> string \<Rightarrow> bool" where
  "startsWith s [] = True"
| "startsWith [] (p # ps) = False"
| "startsWith (c # cs) (p # ps) = (c = p \<and> startsWith cs ps)"

fun indexOf :: "string \<Rightarrow> string \<Rightarrow> nat option" where
  "indexOf [] p = (if p = [] then Some 0 else None)"
| "indexOf (c # cs) p =
     (if startsWith (c # cs) p then Some 0
      else (case indexOf cs p of None \<Rightarrow> None | Some i \<Rightarrow> Some (Suc i)))"

definition includesStr :: "string \<Rightarrow> string \<Rightarrow> bool" where
  "includesStr s p = (indexOf s p \<noteq> None)"

text \<open>\<open>s.substring(start, end)\<close> for \<open>0 \<le> start \<le> end\<close>.\<close>

definition substring :: "string \<Rightarrow> nat \<Rightarrow> nat \<Rightarrow> string" where
  "substring s start end' = take (end' - start) (drop start s)"

section \<open>Errors\<close>

datatype TenantContextErrorCode =
    NO_TENANT_CONTEXT
  | TENANT_NOT_FOUND
  | TENANT_NOT_ACTIVE
  | PROFILE_MISMATCH
  | ROLE_REQUIRED
  | CROSS_TENANT_ACCESS

text \<open>
  What a function throws: a plain \<open>Error\<close> with its message, a \<open>TenantContextError\<close> with
  its code and message, or the \<open>TypeError\<close> / \<open>SyntaxError\<close> of \<open>JSON.stringify\<close> and
  \<open>JSON.parse\<close>.
\<close>

datatype js_error =
    Error string
  | TenantContextError TenantContextErrorCode string
  | TypeError string
  | SyntaxError string

section \<open>Tenant registry (platform/tenancy/tenant-registry.ts)\<close>

datatype TenantProfile = fo | retail | advisor

datatype TenantStatus =
    provisioning
  | onboarding
  | active
  | suspended
  | offboarding
  | terminated

fun statusName :: "TenantStatus \<Rightarrow> string" where
  "statusName provisioning = ''provisioning''"
| "statusName onboarding = ''onboarding''"
| "statusName active = ''active''"
| "statusName suspended = ''suspended''"
| "statusName offboarding = ''offboarding''"
| "statusName terminated = ''terminated''"

text \<open>\<open>TenantConfig\<close>; the optional \<open>metadata\<close> bag plays no part in any operation below.\<close>

record TenantConfig =
  tenantId :: string
  name :: string
  profile :: TenantProfile
  status :: TenantStatus
  encryptionKeyId :: string
  partitionKey :: string
  createdAt :: Date
  updatedAt :: Date

text \<open>
  The two private maps of \<open>TenantRegistryImpl\<close>. A JavaScript \<open>Map\<close> iterates in insertion
  order, so each is an association list; \<open>Map.set\<close> is \<open>AList.update\<close> and \<open>Map.get\<close> is
  \<open>map_of\<close>.
\<close>

record TenantRegistryImpl =
  tenants :: "(string \<times> TenantConfig) list"
  tenantsByPartition :: "(string \<times> string) list"

definition emptyRegistry :: TenantRegistryImpl where
  "emptyRegistry = \<lparr> tenants = [], tenantsByPartition = [] \<rparr>"

text \<open>
  Library functions of the host (Node.js) that the platform calls and does not define:
  \<open>createHash('sha256').update(s).digest('hex')\<close>, \<open>Date.prototype.toISOString\<close> and
  the time-zone dependent \<open>String(date)\<close>. They are the fields of a parameter \<open>host\<close>
  of every operation that uses one of them.
\<close>

record Host =
  sha256 :: "string \<Rightarrow> string"
  toISOString :: "Date \<Rightarrow> string"
  dateToString :: "Date \<Rightarrow> string"

definition generatePartitionKey :: "Host \<Rightarrow> string \<Rightarrow> string" where
  "generatePartitionKey host tid = ''pk_'' @ substring (sha256 host (''partition:'' @ tid)) 0 16"

definition generateEncryptionKeyId :: "Host \<Rightarrow> string \<Rightarrow> string" where
  "generateEncryptionKeyId host tid = ''ek_'' @ substring (sha256 host (''encryption:'' @ tid)) 0 32"

record TenantProvisionRequest =
  reqName :: string
  reqProfile :: TenantProfile

text \<open>
  \<open>provision\<close>: \<open>uuid\<close> is the value of \<open>randomUUID()\<close> and \<open>now\<close> of \<open>new Date()\<close>. The
  result is what the call returns or throws, with the registry after the call.
\<close>

definition provision ::
  "Host \<Rightarrow> string \<Rightarrow> Date \<Rightarrow> TenantRegistryImpl \<Rightarrow> TenantProvisionRequest
     \<Rightarrow> (js_error + TenantConfig) \<times> TenantRegistryImpl" where
  "provision host uuid now reg request =
     (if list_ex (\<lambda>(k, t). toLowerCase (name t) = toLowerCase (reqName request)) (tenants reg)
      then (Inl (Error (''Tenant with name \"'' @ reqName request @ ''\" already exists'')), reg)
      else
        let tenant = \<lparr> tenantId = uuid, name = reqName request, profile = reqProfile request,
                        status = provisioning,
                        encryptionKeyId = generateEncryptionKeyId host uuid,
                        partitionKey = generatePartitionKey host uuid,
                        createdAt = now, updatedAt = now \<rparr>
        in (Inr tenant,
            \<lparr> tenants = AList.update uuid tenant (tenants reg),
              tenantsByPartition =
                AList.update (partitionKey tenant) uuid (tenantsByPartition reg) \<rparr>))"

definition getById :: "TenantRegistryImpl \<Rightarrow> string \<Rightarrow> TenantConfig option" where
  "getById reg tid = map_of (tenants reg) tid"

definition isActive :: "TenantRegistryImpl \<Rightarrow> string \<Rightarrow> bool" where
  "isActive reg tid = (case map_of (tenants reg) tid of None \<Rightarrow> False | Some t \<Rightarrow> status t = active)"

fun validTransitions :: "TenantStatus \<Rightarrow> TenantStatus list" where
  "validTransitions provisioning = [onboarding, terminated]"
| "validTransitions onboarding = [active, terminated]"
| "validTransitions active = [suspended, offboarding]"
| "validTransitions suspended = [active, offboarding]"
| "validTransitions offboarding = [terminated]"
| "validTransitions terminated = []"

definition validateStatusTransition :: "TenantStatus \<Rightarrow> TenantStatus \<Rightarrow> js_error + unit" where
  "validateStatusTransition from to =
     (if \<not> List.member (validTransitions from) to
      then Inl (Error (''Invalid status transition: '' @ statusName from @ '' -> '' @ statusName to))
      else Inr ())"

definition updateStatus ::
  "Date \<Rightarrow> TenantRegistryImpl \<Rightarrow> string \<Rightarrow> TenantStatus
     \<Rightarrow> (js_error + unit) \<times> TenantRegistryImpl" where
  "updateStatus now reg tid newStatus =
     (case map_of (tenants reg) tid of
        None \<Rightarrow> (Inl (Error (''Tenant '' @ tid @ '' not found'')), reg)
      | Some tenant \<Rightarrow>
          (case validateStatusTransition (status tenant) newStatus of
             Inl e \<Rightarrow> (Inl e, reg)
           | Inr _ \<Rightarrow>
               (Inr (),
                reg\<lparr> tenants :=
                  AList.update tid (tenant\<lparr> status := newStatus, updatedAt := now \<rparr>)
                    (tenants reg) \<rparr>)))"

section \<open>Tenant context (tenant-context.ts)\<close>

record TenantContext =
  tenant :: TenantConfig
  correlationId :: string
  ctxCreatedAt :: Date
  userId :: "string option"
  roles :: "string list"

record TenantContextOptions =
  optTenantId :: string
  optCorrelationId :: string
  optUserId :: "string option"
  optRoles :: "string list option"

text \<open>
  The \<open>AsyncLocalStorage\<close> store is the ambient context of a computation: \<open>None\<close> outside
  every \<open>withTenantContext\<close>, \<open>Some ctx\<close> inside one. A function that runs under the
  store takes it as its argument, so \<open>tenantContextStorage.run(context, fn)\<close> is
  \<open>fn (Some context)\<close>.
\<close>

definition withTenantContext ::
  "Date \<Rightarrow> TenantRegistryImpl \<Rightarrow> TenantContextOptions
     \<Rightarrow> (TenantContext option \<Rightarrow> js_error + 'a) \<Rightarrow> js_error + 'a" where
  "withTenantContext now reg options fn =
     (case getById reg (optTenantId options) of
        None \<Rightarrow>
          Inl (TenantContextError TENANT_NOT_FOUND
                 (''Tenant '' @ optTenantId options @ '' does not exist''))
      | Some t \<Rightarrow>
          if status t \<noteq> active
          then Inl (TenantContextError TENANT_NOT_ACTIVE
                      (''Tenant '' @ optTenantId options @ '' is not active (status: ''
                        @ statusName (status t) @ '')''))
          else fn (Some \<lparr> tenant = t, correlationId = optCorrelationId options,
                           ctxCreatedAt = now, userId = optUserId options,
                           roles = (case optRoles options of None \<Rightarrow> [] | Some rs \<Rightarrow> rs) \<rparr>))"

definition getTenantContext :: "TenantContext option \<Rightarrow> js_error + TenantContext" where
  "getTenantContext store =
     (case store of
        None \<Rightarrow> Inl (TenantContextError NO_TENANT_CONTEXT
          ''No tenant context is active. All operations require a tenant context.'')
      | Some context \<Rightarrow> Inr context)"

definition getCurrentTenantId :: "TenantContext option \<Rightarrow> js_error + string" where
  "getCurrentTenantId store = map_sum id (\<lambda>c. tenantId (tenant c)) (getTenantContext store)"

definition getCurrentPartitionKey :: "TenantContext option \<Rightarrow> js_error + string" where
  "getCurrentPartitionKey store = map_sum id (\<lambda>c. partitionKey (tenant c)) (getTenantContext store)"

definition getCurrentTenantProfile :: "TenantContext option \<Rightarrow> js_error + TenantProfile" where
  "getCurrentTenantProfile store = map_sum id (\<lambda>c. profile (tenant c)) (getTenantContext store)"

section \<open>Tenant lifecycle\<close>

text \<open>
  The transition graph as the specification lists it, to compare with
  \<open>validTransitions\<close> of the source.
\<close>

definition transitionGraph :: "(TenantStatus \<times> TenantStatus) set" where
  "transitionGraph =
     {(provisioning, onboarding), (provisioning, terminated),
      (onboarding, active), (onboarding, terminated),
      (active, suspended), (active, offboarding),
      (suspended, active), (suspended, offboarding),
      (offboarding, terminated)}"

text \<open>
  The calls that write the registry, and the status of one tenant after each call of a
  sequence (\<open>None\<close> while the registry has no such tenant).
\<close>

datatype RegistryCall =
    Provision string Date TenantProvisionRequest
  | UpdateStatus Date string TenantStatus

fun registryAfter :: "Host \<Rightarrow> TenantRegistryImpl \<Rightarrow> RegistryCall \<Rightarrow> TenantRegistryImpl" where
  "registryAfter host reg (Provision uuid now request) = snd (provision host uuid now reg request)"
| "registryAfter host reg (UpdateStatus now tid newStatus) = snd (updateStatus now reg tid newStatus)"

definition statusOf :: "TenantRegistryImpl \<Rightarrow> string \<Rightarrow> TenantStatus option" where
  "statusOf reg tid = map_option status (getById reg tid)"

fun statusHistory ::
  "Host \<Rightarrow> string \<Rightarrow> TenantRegistryImpl \<Rightarrow> RegistryCall list \<Rightarrow> TenantStatus option list" where
  "statusHistory host tid reg [] = [statusOf reg tid]"
| "statusHistory host tid reg (c # cs) =
     statusOf reg tid # statusHistory host tid (registryAfter host reg c) cs"

text \<open>
  One step of a history: the status stays, or moves along an edge of the graph, or the
  tenant comes into being in status \<open>provisioning\<close>.
\<close>

fun lifecycleStep :: "TenantStatus option \<Rightarrow> TenantStatus option \<Rightarrow> bool" where
  "lifecycleStep None None = True"
| "lifecycleStep None (Some b) = (b = provisioning)"
| "lifecycleStep (Some a) None = False"
| "lifecycleStep (Some a) (Some b) = (a = b \<or> (a, b) \<in> transitionGraph)"

fun freshFor :: "string \<Rightarrow> RegistryCall \<Rightarrow> bool" where
  "freshFor tid (Provision uuid now request) = (uuid \<noteq> tid)"
| "freshFor tid (UpdateStatus now tid' newStatus) = True"

section \<open>JavaScript values and JSON\<close>

text \<open>
  The values behind the types \<open>unknown\<close>, \<open>T\<close> and \<open>Record<string, unknown>\<close>: an event
  payload, a field of an export record, the state of a replay. Numbers are the integers
  (in the range where JavaScript prints them in plain decimal) and \<open>NaN\<close>; a \<open>Date\<close> is
  its time value; an object is the list of its own properties in enumeration order.
\<close>

datatype jsval =
    JUndefined
  | JNull
  | JBool bool
  | JNum int
  | JNaN
  | JBigInt int
  | JStr string
  | JDate Date
  | JArr "jsval list"
  | JObj "(string \<times> jsval) list"


text \<open>
  \<open>{...base, ...overrides}\<close>: a property of \<open>overrides\<close> replaces the one of the same name
  where it stands, a new one goes to the end.
\<close>

definition spread :: "(string \<times> jsval) list \<Rightarrow> (string \<times> jsval) list \<Rightarrow> (string \<times> jsval) list" where
  "spread base overrides = foldl (\<lambda>obj (k, v). AList.update k v obj) base overrides"

definition intString :: "int \<Rightarrow> string" where
  "intString i = (if i < 0 then ''-'' @ toString (nat (- i)) else toString (nat i))"

definition joinWith :: "string \<Rightarrow> string list \<Rightarrow> string" where
  "joinWith sep parts = concat (case parts of [] \<Rightarrow> [] | p # ps \<Rightarrow> p # map (\<lambda>q. sep @ q) ps)"


text \<open>
  \<open>JSON.stringify\<close>. \<open>QuoteJSONString\<close> escapes the quote, the backslash and the control
  characters.
\<close>

definition hexDigit :: "nat \<Rightarrow> char" where
  "hexDigit d = ''0123456789abcdef'' ! d"

definition escapeChar :: "char \<Rightarrow> string" where
  "escapeChar c =
     (let n = (of_char c :: nat) in
      if n = 34 then [CHR 0x5C, CHR 0x22]
      else if n = 92 then [CHR 0x5C, CHR 0x5C]
      else if n = 8 then [CHR 0x5C, CHR ''b'']
      else if n = 9 then [CHR 0x5C, CHR ''t'']
      else if n = 10 then [CHR 0x5C, CHR ''n'']
      else if n = 12 then [CHR 0x5C, CHR ''f'']
      else if n = 13 then [CHR 0x5C, CHR ''r'']
      else if n < 32 then [CHR 0x5C, CHR ''u'', CHR ''0'', CHR ''0'', hexDigit (n div 16), hexDigit (n mod 16)]
      else [c])"

definition quoteJSONString :: "string \<Rightarrow> string" where
  "quoteJSONString s = CHR 0x22 # concat (map escapeChar s) @ [CHR 0x22]"

text \<open>
  What serialising one property value gives: a \<open>TypeError\<close> (a \<open>BigInt\<close> anywhere in the
  value), \<open>undefined\<close> (the property is left out of an object and is \<open>null\<close> in an array),
  or its JSON text. A \<open>Date\<close> is serialised by \<open>toISOString\<close>: that is what
  \<open>Date.prototype.toJSON\<close> returns, and what the replacer of \<open>calculateHash\<close> returns for
  a \<open>Date\<close>; the replacer returns every other value as it is.
\<close>

datatype serialized = Throws | Undefined | Text string

fun serializeJSONProperty :: "Host \<Rightarrow> jsval \<Rightarrow> serialized" where
  "serializeJSONProperty host JUndefined = Undefined"
| "serializeJSONProperty host JNull = Text ''null''"
| "serializeJSONProperty host (JBool b) = Text (if b then ''true'' else ''false'')"
| "serializeJSONProperty host (JNum n) = Text (intString n)"
| "serializeJSONProperty host JNaN = Text ''null''"
| "serializeJSONProperty host (JBigInt n) = Throws"
| "serializeJSONProperty host (JStr s) = Text (quoteJSONString s)"
| "serializeJSONProperty host (JDate d) = Text (quoteJSONString (toISOString host d))"
| "serializeJSONProperty host (JArr xs) =
     (let rs = map (serializeJSONProperty host) xs in
      if Throws \<in> set rs then Throws
      else Text (''['' @ joinWith '',''
                   (map (\<lambda>r. case r of Text s \<Rightarrow> s | _ \<Rightarrow> ''null'') rs) @ '']''))"
| "serializeJSONProperty host (JObj ps) =
     (let rs = map (\<lambda>(k, v). (k, serializeJSONProperty host v)) ps in
      if Throws \<in> snd ` set rs then Throws
      else Text (''{'' @ joinWith '',''
                   (concat (map (\<lambda>(k, r). case r of Text s \<Rightarrow> [quoteJSONString k @ '':'' @ s]
                                                 | _ \<Rightarrow> []) rs)) @ ''}''))"

definition JSON_stringify :: "Host \<Rightarrow> jsval \<Rightarrow> js_error + string option" where
  "JSON_stringify host v =
     (case serializeJSONProperty host v of
        Throws \<Rightarrow> Inl (TypeError ''Do not know how to serialize a BigInt'')
      | Undefined \<Rightarrow> Inr None
      | Text s \<Rightarrow> Inr (Some s))"

text \<open>
  \<open>JSON.parse(JSON.stringify(v))\<close>, the \<open>deepClone\<close> of the replay engine, on values
  rather than through the text: \<open>jsonValue v\<close> is the value that the JSON text of \<open>v\<close>
  denotes (\<open>None\<close> where \<open>v\<close> has no text). \<open>JSON.stringify(undefined)\<close> is \<open>undefined\<close>,
  which \<open>JSON.parse\<close> refuses with a \<open>SyntaxError\<close>.
\<close>

fun jsonValue :: "Host \<Rightarrow> jsval \<Rightarrow> jsval option" where
  "jsonValue host JUndefined = None"
| "jsonValue host JNull = Some JNull"
| "jsonValue host (JBool b) = Some (JBool b)"
| "jsonValue host (JNum n) = Some (JNum n)"
| "jsonValue host JNaN = Some JNull"
| "jsonValue host (JBigInt n) = None"
| "jsonValue host (JStr s) = Some (JStr s)"
| "jsonValue host (JDate d) = Some (JStr (toISOString host d))"
| "jsonValue host (JArr xs) =
     Some (JArr (map (\<lambda>x. case jsonValue host x of None \<Rightarrow> JNull | Some y \<Rightarrow> y) xs))"
| "jsonValue host (JObj ps) =
     Some (JObj (concat (map (\<lambda>(k, v). case jsonValue host v of None \<Rightarrow> [] | Some y \<Rightarrow> [(k, y)])
                           ps)))"

definition jsonRoundTrip :: "Host \<Rightarrow> jsval \<Rightarrow> js_error + jsval" where
  "jsonRoundTrip host v =
     (case JSON_stringify host v of
        Inl e \<Rightarrow> Inl e
      | Inr None \<Rightarrow> Inl (SyntaxError ''\"undefined\" is not valid JSON'')
      | Inr (Some text) \<Rightarrow>
          (case jsonValue host v of
             None \<Rightarrow> Inl (SyntaxError ''\"undefined\" is not valid JSON'')
           | Some w \<Rightarrow> Inr w))"


section \<open>Isolation guards (platform/tenancy/isolation-guards.ts)\<close>

datatype IsolationViolationType =
    CROSS_TENANT_QUERY
  | CROSS_TENANT_CACHE
  | CROSS_TENANT_EXPORT
  | CROSS_TENANT_EVENT
  | MISSING_PARTITION_KEY
  | INVALID_PARTITION_KEY
  | MULTI_TENANT_JOIN
  | SHARED_RESOURCE_ACCESS

record IsolationViolation =
  vType :: IsolationViolationType
  vMessage :: string
  vTenantId :: string
  attemptedResource :: "string option"
  vTimestamp :: Date
  vCorrelationId :: string

text \<open>
  The violation handler is a callback that returns nothing; what it does is modelled by
  the list of the violations it has been called with, oldest first. \<open>reportViolation\<close>
  never returns: its result is the error it throws, with the new list. It throws
  \<open>NO_TENANT_CONTEXT\<close> before any dispatch when no context is active.
\<close>

definition reportViolation ::
  "TenantContext option \<Rightarrow> Date \<Rightarrow> IsolationViolationType \<Rightarrow> string \<Rightarrow> string option
     \<Rightarrow> IsolationViolation list \<Rightarrow> js_error \<times> IsolationViolation list" where
  "reportViolation store now type message attempted dispatched =
     (case getTenantContext store of
        Inl e \<Rightarrow> (e, dispatched)
      | Inr context \<Rightarrow>
          (TenantContextError CROSS_TENANT_ACCESS (''Isolation violation: '' @ message),
           dispatched @
             [\<lparr> vType = type, vMessage = message, vTenantId = tenantId (tenant context),
                attemptedResource = attempted, vTimestamp = now,
                vCorrelationId = correlationId context \<rparr>]))"

text \<open>\<open>QueryGuard.validatePartitionKey\<close>; an empty string is falsy, as \<open>undefined\<close> is.\<close>

definition validatePartitionKey ::
  "TenantContext option \<Rightarrow> Date \<Rightarrow> string option \<Rightarrow> IsolationViolation list
     \<Rightarrow> (js_error + unit) \<times> IsolationViolation list" where
  "validatePartitionKey store now queryPartitionKey dispatched =
     (if queryPartitionKey = None \<or> queryPartitionKey = Some []
      then (case reportViolation store now MISSING_PARTITION_KEY
                   ''Query must include partition key for tenant isolation'' None dispatched of
              (e, d) \<Rightarrow> (Inl e, d))
      else
        (case getCurrentPartitionKey store of
           Inl e \<Rightarrow> (Inl e, dispatched)
         | Inr expectedKey \<Rightarrow>
             if queryPartitionKey \<noteq> Some expectedKey
             then (case reportViolation store now INVALID_PARTITION_KEY
                          ''Query partition key does not match current tenant''
                          queryPartitionKey dispatched of
                     (e, d) \<Rightarrow> (Inl e, d))
             else (Inr (), dispatched)))"




section \<open>Event store (platform/evidence/event-store.ts)\<close>

text \<open>
  \<open>EventData\<close> is \<open>Omit<DomainEvent, 'hash'>\<close>, the object that is hashed; \<open>DomainEvent\<close>
  adds the hash. The fields \<open>id\<close>, \<open>type\<close>, \<open>tenantId\<close> and \<open>partitionKey\<close> of the source
  are \<open>eventId\<close>, \<open>eventType\<close>, \<open>eTenantId\<close> and \<open>ePartitionKey\<close>. \<open>metadata\<close> is the
  frozen \<open>EventMetadata\<close> object as its property list; \<open>previousHash\<close> is \<open>None\<close> for
  \<open>null\<close>.
\<close>

record EventData =
  eventId :: string
  eventType :: string
  version :: nat
  eTenantId :: string
  ePartitionKey :: string
  aggregateId :: string
  aggregateType :: string
  sequence :: nat
  payload :: jsval
  evidenceRefs :: "string list"
  metadata :: "(string \<times> jsval) list"
  occurredAt :: Date
  recordedAt :: Date
  previousHash :: "string option"

record DomainEvent = EventData +
  hash :: string

record EventQuery =
  qAggregateId :: "string option"
  qAggregateType :: "string option"
  qEventType :: "string option"
  fromTime :: "Date option"
  toTime :: "Date option"
  fromSequence :: "nat option"
  limit :: "nat option"
  cursor :: "string option"

record EventPage =
  pageEvents :: "DomainEvent list"
  nextCursor :: "string option"
  hasMore :: bool

text \<open>The three private maps of \<open>EventStoreImpl\<close>.\<close>

record EventStoreImpl =
  events :: "(string \<times> DomainEvent list) list"
  aggregateSequences :: "(string \<times> nat) list"
  lastHashes :: "(string \<times> string) list"

definition emptyEventStore :: EventStoreImpl where
  "emptyEventStore = \<lparr> events = [], aggregateSequences = [], lastHashes = [] \<rparr>"

definition getTenantKey :: "string \<Rightarrow> string" where
  "getTenantKey pk = ''events:'' @ pk"

text \<open>The object that \<open>calculateHash\<close> hands to \<open>JSON.stringify\<close>, key by key.\<close>

definition eventDataObject :: "EventData \<Rightarrow> jsval" where
  "eventDataObject d =
     JObj [(''id'', JStr (eventId d)),
           (''type'', JStr (eventType d)),
           (''version'', JNum (int (version d))),
           (''tenantId'', JStr (eTenantId d)),
           (''partitionKey'', JStr (ePartitionKey d)),
           (''aggregateId'', JStr (aggregateId d)),
           (''aggregateType'', JStr (aggregateType d)),
           (''sequence'', JNum (int (sequence d))),
           (''payload'', payload d),
           (''evidenceRefs'', JArr (map JStr (evidenceRefs d))),
           (''metadata'', JObj (metadata d)),
           (''occurredAt'', JDate (occurredAt d)),
           (''recordedAt'', JDate (recordedAt d)),
           (''previousHash'', (case previousHash d of None \<Rightarrow> JNull | Some h \<Rightarrow> JStr h))]"

definition calculateHash :: "Host \<Rightarrow> EventData \<Rightarrow> js_error + string" where
  "calculateHash host eventData =
     (case JSON_stringify host (eventDataObject eventData) of
        Inl e \<Rightarrow> Inl e
      | Inr None \<Rightarrow> Inl (TypeError ''The \"data\" argument must be of type string'')
      | Inr (Some content) \<Rightarrow> Inr (sha256 host content))"

text \<open>
  \<open>append\<close>. \<open>uuid\<close> is the value of \<open>randomUUID()\<close>, \<open>nowO\<close> and \<open>nowR\<close> of the two
  \<open>new Date()\<close>; \<open>metadata\<close> is the property list of the optional argument (empty when it
  is left out). The store is written in the order of the source: the tenant's list and
  the aggregate's counter before the hash is computed, the event and the last hash after.
\<close>

definition append ::
  "Host \<Rightarrow> string \<Rightarrow> Date \<Rightarrow> Date \<Rightarrow> EventStoreImpl \<Rightarrow> TenantContext option
     \<Rightarrow> string \<Rightarrow> string \<Rightarrow> string \<Rightarrow> jsval \<Rightarrow> string list \<Rightarrow> (string \<times> jsval) list
     \<Rightarrow> (js_error + DomainEvent) \<times> EventStoreImpl" where
  "append host uuid nowO nowR st store type aggId aggType pl refs meta =
     (case getTenantContext store of
        Inl e \<Rightarrow> (Inl e, st)
      | Inr context \<Rightarrow>
          let pk = partitionKey (tenant context);
              tenantKey = getTenantKey pk;
              events1 = (if map_of (events st) tenantKey = None
                         then AList.update tenantKey [] (events st) else events st);
              aggregateKey = pk @ '':'' @ aggType @ '':'' @ aggId;
              seq = (case map_of (aggregateSequences st) aggregateKey of None \<Rightarrow> 0 | Some n \<Rightarrow> n) + 1;
              sequences1 = AList.update aggregateKey seq (aggregateSequences st);
              eventData =
                \<lparr> eventId = uuid, eventType = type, version = 1,
                  eTenantId = tenantId (tenant context), ePartitionKey = pk,
                  aggregateId = aggId, aggregateType = aggType, sequence = seq,
                  payload = pl, evidenceRefs = refs,
                  metadata =
                    spread [(''correlationId'', JStr (correlationId context)),
                            (''userId'', (case userId context of None \<Rightarrow> JUndefined | Some u \<Rightarrow> JStr u)),
                            (''source'', JStr ''ultrawealth-platform'')] meta,
                  occurredAt = nowO, recordedAt = nowR,
                  previousHash = map_of (lastHashes st) tenantKey \<rparr>
          in case calculateHash host eventData of
               Inl e \<Rightarrow> (Inl e, st\<lparr> events := events1, aggregateSequences := sequences1 \<rparr>)
             | Inr h \<Rightarrow>
                 let event = EventData.extend eventData (DomainEvent.fields h) in
                 (Inr event,
                  \<lparr> events =
                      AList.update tenantKey
                        ((case map_of events1 tenantKey of None \<Rightarrow> [] | Some es \<Rightarrow> es) @ [event])
                        events1,
                    aggregateSequences = sequences1,
                    lastHashes = AList.update tenantKey h (lastHashes st) \<rparr>))"

text \<open>
  \<open>query\<close>. A filter applies when its field is truthy: a non-empty string, a non-zero
  number, any \<open>Date\<close>. The limit is \<open>query.limit ?? 100\<close>.
\<close>

definition truthy :: "string option \<Rightarrow> bool" where
  "truthy s = (s \<noteq> None \<and> s \<noteq> Some [])"

definition matchesQuery :: "EventQuery \<Rightarrow> DomainEvent \<Rightarrow> bool" where
  "matchesQuery q event =
     (if truthy (qAggregateId q) \<and> Some (aggregateId event) \<noteq> qAggregateId q then False
      else if truthy (qAggregateType q) \<and> Some (aggregateType event) \<noteq> qAggregateType q then False
      else if truthy (qEventType q) \<and> Some (eventType event) \<noteq> qEventType q then False
      else if (case fromTime q of None \<Rightarrow> False | Some t \<Rightarrow> occurredAt event < t) then False
      else if (case toTime q of None \<Rightarrow> False | Some t \<Rightarrow> occurredAt event > t) then False
      else if (case fromSequence q of None \<Rightarrow> False | Some n \<Rightarrow> n \<noteq> 0 \<and> sequence event < n)
      then False
      else True)"

text \<open>\<open>filtered.findIndex(e => e.id === cursor)\<close>, \<open>None\<close> for -1.\<close>

fun findIndex :: "('a \<Rightarrow> bool) \<Rightarrow> 'a list \<Rightarrow> nat option" where
  "findIndex P [] = None"
| "findIndex P (x # xs) =
     (if P x then Some 0 else (case findIndex P xs of None \<Rightarrow> None | Some i \<Rightarrow> Some (Suc i)))"

definition query ::
  "EventStoreImpl \<Rightarrow> TenantContext option \<Rightarrow> Date \<Rightarrow> EventQuery \<Rightarrow> IsolationViolation list
     \<Rightarrow> (js_error + EventPage) \<times> IsolationViolation list" where
  "query st store now q dispatched =
     (case getCurrentPartitionKey store of
        Inl e \<Rightarrow> (Inl e, dispatched)
      | Inr pk \<Rightarrow>
          (case validatePartitionKey store now (Some pk) dispatched of
             (Inl e, d) \<Rightarrow> (Inl e, d)
           | (Inr _, d) \<Rightarrow>
               let allEvents = (case map_of (events st) (getTenantKey pk) of
                                  None \<Rightarrow> [] | Some es \<Rightarrow> es);
                   filtered = filter (matchesQuery q) allEvents;
                   filtered1 =
                     (if truthy (cursor q)
                      then (case findIndex (\<lambda>e. Some (eventId e) = cursor q) filtered of
                              None \<Rightarrow> filtered
                            | Some cursorIndex \<Rightarrow> drop (cursorIndex + 1) filtered)
                      else filtered);
                   lim = (case limit q of None \<Rightarrow> 100 | Some l \<Rightarrow> l);
                   more = (length filtered1 > lim);
                   evs = take lim filtered1
               in (Inr \<lparr> pageEvents = evs,
                         nextCursor = (if more \<and> evs \<noteq> [] then Some (eventId (last evs)) else None),
                         hasMore = more \<rparr>, d)))"

definition emptyQuery :: EventQuery where
  "emptyQuery =
     \<lparr> qAggregateId = None, qAggregateType = None, qEventType = None, fromTime = None,
       toTime = None, fromSequence = None, limit = None, cursor = None \<rparr>"

definition getAggregateEvents ::
  "EventStoreImpl \<Rightarrow> TenantContext option \<Rightarrow> Date \<Rightarrow> string \<Rightarrow> string
     \<Rightarrow> IsolationViolation list \<Rightarrow> (js_error + DomainEvent list) \<times> IsolationViolation list" where
  "getAggregateEvents st store now aggType aggId dispatched =
     (case query st store now
             (emptyQuery\<lparr> qAggregateType := Some aggType, qAggregateId := Some aggId \<rparr>)
             dispatched of
        (Inl e, d) \<Rightarrow> (Inl e, d)
      | (Inr result, d) \<Rightarrow> (Inr (pageEvents result), d))"


record ChainReport =
  valid :: bool
  errors :: "string list"



section \<open>Runs of the event store and the hash chain\<close>

text \<open>
  One call of \<open>append\<close> with everything it reads: its active context, the values of
  \<open>randomUUID()\<close> and of the two \<open>new Date()\<close>, and its arguments.
\<close>

record AppendCall =
  acContext :: TenantContext
  acUuid :: string
  acOccurredAt :: Date
  acRecordedAt :: Date
  acType :: string
  acAggregateId :: string
  acAggregateType :: string
  acPayload :: jsval
  acEvidenceRefs :: "string list"
  acMetadata :: "(string \<times> jsval) list"

definition appendCall ::
  "Host \<Rightarrow> EventStoreImpl \<Rightarrow> AppendCall \<Rightarrow> (js_error + DomainEvent) \<times> EventStoreImpl" where
  "appendCall host st c =
     append host (acUuid c) (acOccurredAt c) (acRecordedAt c) st (Some (acContext c))
       (acType c) (acAggregateId c) (acAggregateType c) (acPayload c) (acEvidenceRefs c)
       (acMetadata c)"

text \<open>The store after a sequence of calls, each returning or throwing.\<close>

fun runAppends :: "Host \<Rightarrow> EventStoreImpl \<Rightarrow> AppendCall list \<Rightarrow> EventStoreImpl" where
  "runAppends host st [] = st"
| "runAppends host st (c # cs) = runAppends host (snd (appendCall host st c)) cs"

text \<open>The stored events of a partition, in stored order.\<close>

definition tenantEvents :: "EventStoreImpl \<Rightarrow> string \<Rightarrow> DomainEvent list" where
  "tenantEvents st pk = (case map_of (events st) (getTenantKey pk) of None \<Rightarrow> [] | Some es \<Rightarrow> es)"




text \<open>The JSON text of an event's hashed fields, and a store with one stored event replaced.\<close>

definition jsonText :: "Host \<Rightarrow> DomainEvent \<Rightarrow> js_error + string option" where
  "jsonText host e = JSON_stringify host (eventDataObject (EventData.truncate e))"



text \<open>
  The event data that \<open>append\<close> builds for a call on a store, and the calls whose payload
  and metadata \<open>JSON.stringify\<close> accepts (no \<open>BigInt\<close> in them).
\<close>

definition aggregateKey :: "string \<Rightarrow> string \<Rightarrow> string \<Rightarrow> string" where
  "aggregateKey pk aggType aggId = pk @ '':'' @ aggType @ '':'' @ aggId"

definition callEventData :: "EventStoreImpl \<Rightarrow> AppendCall \<Rightarrow> EventData" where
  "callEventData st c =
     \<lparr> eventId = acUuid c, eventType = acType c, version = 1,
       eTenantId = tenantId (tenant (acContext c)),
       ePartitionKey = partitionKey (tenant (acContext c)),
       aggregateId = acAggregateId c, aggregateType = acAggregateType c,
       sequence =
         (case map_of (aggregateSequences st)
                 (aggregateKey (partitionKey (tenant (acContext c))) (acAggregateType c)
                    (acAggregateId c)) of None \<Rightarrow> 0 | Some n \<Rightarrow> n) + 1,
       payload = acPayload c, evidenceRefs = acEvidenceRefs c,
       metadata =
         spread [(''correlationId'', JStr (correlationId (acContext c))),
                 (''userId'', (case userId (acContext c) of None \<Rightarrow> JUndefined | Some u \<Rightarrow> JStr u)),
                 (''source'', JStr ''ultrawealth-platform'')] (acMetadata c),
       occurredAt = acOccurredAt c, recordedAt = acRecordedAt c,
       previousHash =
         map_of (lastHashes st) (getTenantKey (partitionKey (tenant (acContext c)))) \<rparr>"

definition callSerializable :: "Host \<Rightarrow> AppendCall \<Rightarrow> bool" where
  "callSerializable host c =
     (serializeJSONProperty host (acPayload c) \<noteq> Throws
      \<and> serializeJSONProperty host (JObj (acMetadata c)) \<noteq> Throws)"

text \<open>An event carries a call: it has the call's id, tenant, arguments and times.\<close>

definition carries :: "AppendCall \<Rightarrow> DomainEvent \<Rightarrow> bool" where
  "carries c e =
     (eventId e = acUuid c \<and> eventType e = acType c \<and> version e = 1
      \<and> eTenantId e = tenantId (tenant (acContext c))
      \<and> ePartitionKey e = partitionKey (tenant (acContext c))
      \<and> aggregateId e = acAggregateId c \<and> aggregateType e = acAggregateType c
      \<and> payload e = acPayload c \<and> evidenceRefs e = acEvidenceRefs c
      \<and> occurredAt e = acOccurredAt c \<and> recordedAt e = acRecordedAt c)"

definition inPartition :: "string \<Rightarrow> AppendCall \<Rightarrow> bool" where
  "inPartition pk c = (partitionKey (tenant (acContext c)) = pk)"


section \<open>Evidence linker (evidence-linker.ts)\<close>

datatype EvidenceType =
    document
  | statement
  | valuation
  | screenshot
  | api_response
  | manual_entry
  | external_report

text \<open>
  \<open>Evidence\<close>; the fields \<open>id\<close>, \<open>type\<close>, \<open>tenantId\<close>, \<open>partitionKey\<close> and \<open>metadata\<close> of the
  source are \<open>evidenceId\<close>, \<open>evidenceType\<close>, \<open>evTenantId\<close>, \<open>evPartitionKey\<close> and
  \<open>evMetadata\<close>. A \<open>Buffer\<close> is the string of its bytes.
\<close>

record Evidence =
  evidenceId :: string
  evidenceType :: EvidenceType
  evTenantId :: string
  evPartitionKey :: string
  description :: string
  source :: string
  mimeType :: string
  sizeBytes :: nat
  contentHash :: string
  storageLocation :: string
  capturedAt :: Date
  linkedAt :: Date
  linkedBy :: "string option"
  evMetadata :: "(string \<times> jsval) list option"
  linkedEvents :: "string list"



text \<open>
  The three private maps of \<open>EvidenceLinkerImpl\<close>; a \<open>Set\<close> of evidence ids is the list of
  its members in insertion order.
\<close>

record EvidenceLinkerImpl =
  evidence :: "(string \<times> Evidence) list"
  contentStore :: "(string \<times> string) list"
  eventToEvidence :: "(string \<times> string list) list"


definition evidenceTenantKey :: "string \<Rightarrow> string" where
  "evidenceTenantKey pk = ''evidence:'' @ pk"








text \<open>\<open>getForEvent\<close>: the evidence records of the current tenant linked to an event.\<close>

definition getForEvent ::
  "EvidenceLinkerImpl \<Rightarrow> TenantContext option \<Rightarrow> Date \<Rightarrow> string \<Rightarrow> IsolationViolation list
     \<Rightarrow> (js_error + Evidence list) \<times> IsolationViolation list" where
  "getForEvent linker store now eventId' dispatched =
     (case getCurrentPartitionKey store of
        Inl e \<Rightarrow> (Inl e, dispatched)
      | Inr pk \<Rightarrow>
          (case validatePartitionKey store now (Some pk) dispatched of
             (Inl e, d) \<Rightarrow> (Inl e, d)
           | (Inr _, d) \<Rightarrow>
               (Inr (concat (map (\<lambda>eid. case map_of (evidence linker)
                                                 (evidenceTenantKey pk @ '':'' @ eid) of
                                            None \<Rightarrow> [] | Some ev \<Rightarrow> [ev])
                               (case map_of (eventToEvidence linker) eventId' of
                                  None \<Rightarrow> [] | Some s \<Rightarrow> s))), d)))"


section \<open>Governance adapter (governance-adapter.ts)\<close>

record GovernanceEnforcement =
  forbiddenAdvisoryTerms :: "string list"
  forbiddenExecutionTerms :: "string list"
  forbiddenSorPatterns :: "string list"
  forbiddenDependencies :: "string list"
  advisoryAllowed :: bool
  executionAllowed :: bool
  sorAllowed :: bool

text \<open>\<open>GovernanceProfile\<close>; its field \<open>name\<close> is \<open>profileName\<close>.\<close>

record GovernanceProfile =
  profileName :: TenantProfile
  displayName :: string
  enforcement :: GovernanceEnforcement

datatype GovernanceViolationType =
    ADVISORY_LANGUAGE
  | EXECUTION_CAPABILITY
  | SOR_LEAKAGE
  | FORBIDDEN_DEPENDENCY

text \<open>
  \<open>GovernanceViolation\<close>; its fields \<open>type\<close>, \<open>term\<close>, \<open>context\<close>, \<open>profile\<close> and \<open>timestamp\<close>
  are \<open>gvType\<close>, \<open>gvTerm\<close>, \<open>gvContext\<close>, \<open>gvProfile\<close> and \<open>gvTimestamp\<close>; the severity is the
  string \<open>'error'\<close> or \<open>'warning'\<close>.
\<close>

record GovernanceViolation =
  gvType :: GovernanceViolationType
  gvTerm :: string
  gvContext :: string
  severity :: string
  gvProfile :: TenantProfile
  gvTimestamp :: Date

definition FO_PROFILE :: GovernanceProfile where
  "FO_PROFILE =
     \<lparr> profileName = fo, displayName = ''Family Office'',
       enforcement =
         \<lparr> forbiddenAdvisoryTerms =
             [''recommend'', ''recommended'', ''suggest'', ''suggested'', ''advise'', ''advised'',
              ''optimise'', ''optimize'', ''allocate'', ''allocation'', ''outperform'',
              ''beat the market'', ''should invest'', ''consider investing'',
              ''investment opportunity'', ''buy'', ''sell'', ''hold''],
           forbiddenExecutionTerms =
             [''execute'', ''placeOrder'', ''submitTrade'', ''rebalance'', ''trade'', ''order'',
              ''transact''],
           forbiddenSorPatterns =
             [''updateBalance'', ''setBalance'', ''mutateBalance'', ''reconcilePosition'',
              ''postTransaction'', ''createJournalEntry'', ''postJournal'', ''updateLedger'',
              ''ledgerEntry''],
           forbiddenDependencies =
             [''@turingos/ledger'', ''@turingos/execution'', ''@turingos/trading'',
              ''@turingos/oms'', ''@turingos/decision-engine'', ''@turingos/allocation-engine''],
           advisoryAllowed = False, executionAllowed = False, sorAllowed = False \<rparr> \<rparr>"

definition RETAIL_PROFILE :: GovernanceProfile where
  "RETAIL_PROFILE =
     \<lparr> profileName = retail, displayName = ''Retail'',
       enforcement =
         \<lparr> forbiddenAdvisoryTerms =
             [''recommend'', ''recommended'', ''suggest'', ''suggested'', ''advise'', ''advised'',
              ''should invest'', ''consider investing''],
           forbiddenExecutionTerms = [''execute'', ''placeOrder'', ''submitTrade'', ''rebalance''],
           forbiddenSorPatterns =
             [''updateBalance'', ''setBalance'', ''postTransaction'', ''updateLedger''],
           forbiddenDependencies =
             [''@turingos/ledger'', ''@turingos/execution'', ''@turingos/trading'',
              ''@turingos/oms''],
           advisoryAllowed = False, executionAllowed = False, sorAllowed = False \<rparr> \<rparr>"

definition ADVISOR_PROFILE :: GovernanceProfile where
  "ADVISOR_PROFILE =
     \<lparr> profileName = advisor, displayName = ''Advisor'',
       enforcement =
         \<lparr> forbiddenAdvisoryTerms = [],
           forbiddenExecutionTerms = [''execute'', ''placeOrder'', ''submitTrade'', ''rebalance''],
           forbiddenSorPatterns =
             [''updateBalance'', ''setBalance'', ''postTransaction'', ''updateLedger''],
           forbiddenDependencies =
             [''@turingos/ledger'', ''@turingos/execution'', ''@turingos/trading'',
              ''@turingos/oms''],
           advisoryAllowed = True, executionAllowed = False, sorAllowed = False \<rparr> \<rparr>"

text \<open>
  The registry \<open>PROFILES\<close>, and the adapter: an adapter is the profile its constructor
  looks up (every \<open>TenantProfile\<close> has one, so the constructor does not throw).
\<close>

fun PROFILES :: "TenantProfile \<Rightarrow> GovernanceProfile" where
  "PROFILES fo = FO_PROFILE"
| "PROFILES retail = RETAIL_PROFILE"
| "PROFILES advisor = ADVISOR_PROFILE"

definition GovernanceAdapter :: "TenantProfile \<Rightarrow> GovernanceProfile" where
  "GovernanceAdapter tenantProfile = PROFILES tenantProfile"

definition forCurrentTenant :: "TenantContext option \<Rightarrow> js_error + GovernanceProfile" where
  "forCurrentTenant store = map_sum id GovernanceAdapter (getCurrentTenantProfile store)"

definition extractContext :: "string \<Rightarrow> string \<Rightarrow> string" where
  "extractContext content term' =
     (case indexOf (toLowerCase content) (toLowerCase term') of
        None \<Rightarrow> []
      | Some index \<Rightarrow>
          ''...'' @ substring content (if index < 30 then 0 else index - 30)
                     (min (length content) (index + length term' + 30)) @ ''...'')"

text \<open>
  \<open>checkAdvisoryLanguage\<close>: the loop pushes one violation for every term of the list, in
  order, that the lower-cased text includes. Every \<open>new Date()\<close> of the call reads \<open>now\<close>.
\<close>

definition checkAdvisoryLanguage :: "GovernanceProfile \<Rightarrow> Date \<Rightarrow> string \<Rightarrow> GovernanceViolation list" where
  "checkAdvisoryLanguage adapter now content =
     (if advisoryAllowed (enforcement adapter) then []
      else
        map (\<lambda>term'. \<lparr> gvType = ADVISORY_LANGUAGE, gvTerm = term',
                         gvContext = extractContext content term', severity = ''error'',
                         gvProfile = profileName adapter, gvTimestamp = now \<rparr>)
          (filter (\<lambda>term'. includesStr (toLowerCase content) (toLowerCase term'))
             (forbiddenAdvisoryTerms (enforcement adapter))))"

section \<open>Content sanitisation (enforcement-hooks.ts)\<close>

text \<open>
  The regular expression \<open>new RegExp(`\\b${term}\\b`, 'gi')\<close> for a term of letters, digits
  and spaces (as all configured terms are), on ASCII text: the term, compared without
  regard to case, between two word boundaries. A word character is a letter, a digit or
  the underscore; a boundary lies between a word character and a character that is not
  one, the two ends of the text counting as not.
\<close>

definition wordChar :: "char \<Rightarrow> bool" where
  "wordChar c =
     (c \<in> set ''abcdefghijklmnopqrstuvwxyzABCDEFGHIJKLMNOPQRSTUVWXYZ0123456789_'')"

definition wordAt :: "string \<Rightarrow> nat \<Rightarrow> bool" where
  "wordAt s i = (i < length s \<and> wordChar (s ! i))"

definition boundaryAt :: "string \<Rightarrow> nat \<Rightarrow> bool" where
  "boundaryAt s i = ((i \<noteq> 0 \<and> wordAt s (i - 1)) \<noteq> wordAt s i)"

definition matchAt :: "string \<Rightarrow> string \<Rightarrow> nat \<Rightarrow> bool" where
  "matchAt s term' i =
     (i + length term' \<le> length s
      \<and> boundaryAt s i
      \<and> toLowerCase (take (length term') (drop i s)) = toLowerCase term'
      \<and> boundaryAt s (i + length term'))"

text \<open>\<open>regex.test(s)\<close>: the term matches at some position.\<close>

definition regexTest :: "string \<Rightarrow> string \<Rightarrow> bool" where
  "regexTest s term' = list_ex (matchAt s term') [0..<Suc (length s)]"

text \<open>
  \<open>s.replace(regex, '[REDACTED]')\<close> with the global flag, scanning from position \<open>i\<close>:
  every match, leftmost first and not overlapping, is replaced. After an empty match the
  scan moves on by one character.
\<close>

function replaceFrom :: "string \<Rightarrow> string \<Rightarrow> nat \<Rightarrow> string" where
  "replaceFrom s term' i =
     (if i > length s then []
      else if matchAt s term' i
      then ''[REDACTED]'' @
             (if term' = []
              then (if i < length s then s ! i # replaceFrom s term' (Suc i) else [])
              else replaceFrom s term' (i + length term'))
      else if i < length s then s ! i # replaceFrom s term' (Suc i)
      else [])"
  by pat_completeness auto
termination
  by (relation "measure (\<lambda>(s, t, i). Suc (length s) - i)") (auto simp add: matchAt_def neq_Nil_conv)

declare replaceFrom.simps [simp del]

record Sanitized =
  sanitized :: string
  removedTerms :: "string list"

definition sanitizeStep :: "Sanitized \<Rightarrow> string \<Rightarrow> Sanitized" where
  "sanitizeStep acc term' =
     (if regexTest (sanitized acc) term'
      then \<lparr> sanitized = replaceFrom (sanitized acc) term' 0,
             removedTerms = removedTerms acc @ [term'] \<rparr>
      else acc)"

definition sanitizeContent :: "TenantContext option \<Rightarrow> string \<Rightarrow> js_error + Sanitized" where
  "sanitizeContent store content =
     (case forCurrentTenant store of
        Inl e \<Rightarrow> Inl e
      | Inr adapter \<Rightarrow>
          Inr (foldl sanitizeStep \<lparr> sanitized = content, removedTerms = [] \<rparr>
                 (forbiddenAdvisoryTerms (enforcement adapter))))"


section \<open>Concrete scenarios\<close>

text \<open>
  Scenario A of the specification: tenant "Acme FO" with profile \<open>fo\<close> is provisioned
  into an empty registry, then moved to \<open>onboarding\<close> and to \<open>active\<close>.
\<close>

definition acmeRequest :: TenantProvisionRequest where
  "acmeRequest = \<lparr> reqName = ''Acme FO'', reqProfile = fo \<rparr>"

definition acmeProvisioned :: "Host \<Rightarrow> string \<Rightarrow> Date \<Rightarrow> TenantRegistryImpl" where
  "acmeProvisioned host uuid now = snd (provision host uuid now emptyRegistry acmeRequest)"

definition acmeActivated :: "Host \<Rightarrow> string \<Rightarrow> Date \<Rightarrow> TenantRegistryImpl" where
  "acmeActivated host uuid now =
     snd (updateStatus now (snd (updateStatus now (acmeProvisioned host uuid now) uuid onboarding))
            uuid active)"

definition acmeOptions :: "string \<Rightarrow> TenantContextOptions" where
  "acmeOptions uuid =
     \<lparr> optTenantId = uuid, optCorrelationId = ''corr-1'', optUserId = None, optRoles = None \<rparr>"

text \<open>
  A stand-in host for running the operations on concrete inputs: the digest of a text is
  the text itself (so it has no collisions), a date is printed as its time value.
\<close>

definition plainHost :: Host where
  "plainHost = \<lparr> sha256 = (\<lambda>s. s), toISOString = (\<lambda>d. toString (nat d)),
                 dateToString = (\<lambda>d. toString (nat d)) \<rparr>"

definition acmeCalls :: "RegistryCall list" where
  "acmeCalls =
     [UpdateStatus 1 ''t1'' active,
      UpdateStatus 2 ''t1'' onboarding,
      Provision ''t2'' 3 \<lparr> reqName = ''Other'', reqProfile = retail \<rparr>,
      UpdateStatus 4 ''t1'' terminated,
      UpdateStatus 5 ''t1'' active]"

definition acmeTenant :: "TenantStatus \<Rightarrow> Date \<Rightarrow> TenantConfig" where
  "acmeTenant st upd =
     \<lparr> tenantId = ''t1'', name = ''Acme FO'', profile = fo, status = st,
       encryptionKeyId = generateEncryptionKeyId plainHost ''t1'',
       partitionKey = generatePartitionKey plainHost ''t1'',
       createdAt = 0, updatedAt = upd \<rparr>"

definition acmeTerminated :: TenantRegistryImpl where
  "acmeTerminated = snd (updateStatus 1 (acmeProvisioned plainHost ''t1'' 0) ''t1'' terminated)"

text \<open>Scenario E: an active context of the tenant with id \<open>A\<close>, and its two export records.\<close>

definition tenantA :: TenantConfig where
  "tenantA =
     \<lparr> tenantId = ''A'', name = ''Tenant A'', profile = fo, status = active,
       encryptionKeyId = ''ek_A'', partitionKey = ''pk_A'', createdAt = 0, updatedAt = 0 \<rparr>"

definition contextA :: TenantContext where
  "contextA =
     \<lparr> tenant = tenantA, correlationId = ''corr-1'', ctxCreatedAt = 1, userId = Some ''user-1'',
       roles = [] \<rparr>"








text \<open>
  Two aggregates of tenant \<open>A\<close> whose type and id differ and whose counter keys coincide:
  type \<open>A:B\<close> with id \<open>C\<close>, and type \<open>A\<close> with id \<open>B:C\<close>. One event is appended to each.
\<close>

definition colonCall1 :: AppendCall where
  "colonCall1 =
     \<lparr> acContext = contextA, acUuid = ''e1'', acOccurredAt = 10, acRecordedAt = 10,
       acType = ''entity.created'', acAggregateId = ''C'', acAggregateType = ''A:B'',
       acPayload = JNull, acEvidenceRefs = [], acMetadata = [] \<rparr>"

definition colonCall2 :: AppendCall where
  "colonCall2 =
     \<lparr> acContext = contextA, acUuid = ''e2'', acOccurredAt = 20, acRecordedAt = 20,
       acType = ''entity.created'', acAggregateId = ''B:C'', acAggregateType = ''A'',
       acPayload = JNull, acEvidenceRefs = [], acMetadata = [] \<rparr>"

definition colonStore :: "Host \<Rightarrow> EventStoreImpl" where
  "colonStore host = runAppends host emptyEventStore [colonCall1, colonCall2]"

text \<open>\<open>n\<close> events appended to the aggregate \<open>ent_1\<close> of type \<open>Entity\<close> of tenant \<open>A\<close>.\<close>

definition entityCall :: "nat \<Rightarrow> AppendCall" where
  "entityCall i =
     \<lparr> acContext = contextA, acUuid = ''e'' @ toString i, acOccurredAt = int i,
       acRecordedAt = int i, acType = ''entity.updated'', acAggregateId = ''ent_1'',
       acAggregateType = ''Entity'', acPayload = JNull, acEvidenceRefs = [], acMetadata = [] \<rparr>"

definition entityStore :: "Host \<Rightarrow> nat \<Rightarrow> EventStoreImpl" where
  "entityStore host n = runAppends host emptyEventStore (map entityCall [0..<n])"







lemma member_validTransitions:
  "(b \<in> set (validTransitions a)) = ((a, b) \<in> transitionGraph)"
  by (cases a; cases b; simp add: transitionGraph_def)

lemma updateStatus_result:
  "map_of (tenants reg) tid = Some t \<Longrightarrow>
   updateStatus now reg tid s =
     (if (status t, s) \<in> transitionGraph
      then (Inr (), reg\<lparr> tenants := AList.update tid (t\<lparr> status := s, updatedAt := now \<rparr>) (tenants reg) \<rparr>)
      else (Inl (Error (''Invalid status transition: '' @ statusName (status t) @ '' -> '' @ statusName s)), reg))"
  by (simp add: updateStatus_def validateStatusTransition_def member_validTransitions)

lemma updateStatus_missing:
  "map_of (tenants reg) tid = None \<Longrightarrow>
   updateStatus now reg tid s = (Inl (Error (''Tenant '' @ tid @ '' not found'')), reg)"
  by (simp add: updateStatus_def)

lemma statusOf_updateStatus:
  "lifecycleStep (statusOf reg tid) (statusOf (snd (updateStatus now reg tid' s)) tid)"
proof (cases "map_of (tenants reg) tid'")
  case None
  then show ?thesis
    by (cases "statusOf reg tid") (simp_all add: updateStatus_missing)
next
  case (Some t)
  show ?thesis
  proof (cases "tid' = tid")
    case True
    with Some show ?thesis
      by (simp add: updateStatus_result statusOf_def getById_def update_conv')
  next
    case False
    with Some show ?thesis
      by (cases "statusOf reg tid")
         (auto simp add: updateStatus_result statusOf_def getById_def update_conv')
  qed
qed

lemma statusOf_provision:
  "uuid \<noteq> tid \<Longrightarrow> statusOf (snd (provision host uuid now reg request)) tid = statusOf reg tid"
  by (simp add: provision_def statusOf_def getById_def update_conv' Let_def)

lemma lifecycleStep_refl: "lifecycleStep a a"
  by (cases a) simp_all

lemma lifecycleStep_call:
  "freshFor tid c \<Longrightarrow> lifecycleStep (statusOf reg tid) (statusOf (registryAfter host reg c) tid)"
  by (cases c) (simp_all add: statusOf_provision statusOf_updateStatus lifecycleStep_refl)

lemma statusHistory_nonempty: "statusHistory host tid reg cs \<noteq> []"
  by (cases cs) simp_all

lemma hd_statusHistory: "hd (statusHistory host tid reg cs) = statusOf reg tid"
  by (cases cs) simp_all

lemma statusHistory_path:
  "list_all (freshFor tid) cs \<Longrightarrow> successively lifecycleStep (statusHistory host tid reg cs)"
proof (induction cs arbitrary: reg)
  case Nil
  then show ?case by simp
next
  case (Cons c cs)
  obtain h hs where h: "statusHistory host tid (registryAfter host reg c) cs = h # hs"
    using statusHistory_nonempty by (meson list.exhaust)
  have "h = statusOf (registryAfter host reg c) tid"
    using hd_statusHistory [of host tid "registryAfter host reg c" cs] h by simp
  moreover have "successively lifecycleStep (h # hs)"
    using Cons.IH [of "registryAfter host reg c"] Cons.prems h by simp
  ultimately show ?case
    using Cons.prems h by (simp add: lifecycleStep_call)
qed

lemma terminated_stays:
  "list_all (freshFor tid) cs \<Longrightarrow> statusOf reg tid = Some terminated \<Longrightarrow>
   set (statusHistory host tid reg cs) = {Some terminated}"
proof (induction cs arbitrary: reg)
  case Nil
  then show ?case by simp
next
  case (Cons c cs)
  have "lifecycleStep (Some terminated) (statusOf (registryAfter host reg c) tid)"
    using lifecycleStep_call [of tid c reg host] Cons.prems by simp
  then have "statusOf (registryAfter host reg c) tid = Some terminated"
    by (cases "statusOf (registryAfter host reg c) tid") (auto simp add: transitionGraph_def)
  with Cons show ?case by simp
qed

lemma provision_empty:
  "provision host uuid now emptyRegistry request =
     (Inr \<lparr> tenantId = uuid, name = reqName request, profile = reqProfile request,
             status = provisioning,
             encryptionKeyId = generateEncryptionKeyId host uuid,
             partitionKey = generatePartitionKey host uuid,
             createdAt = now, updatedAt = now \<rparr>,
      \<lparr> tenants = [(uuid, \<lparr> tenantId = uuid, name = reqName request, profile = reqProfile request,
             status = provisioning,
             encryptionKeyId = generateEncryptionKeyId host uuid,
             partitionKey = generatePartitionKey host uuid,
             createdAt = now, updatedAt = now \<rparr>)],
        tenantsByPartition = [(generatePartitionKey host uuid, uuid)] \<rparr>)"
  by (simp add: provision_def emptyRegistry_def Let_def)

lemma acmeProvisioned_getById:
  "getById (acmeProvisioned host uuid now) uuid =
     Some \<lparr> tenantId = uuid, name = ''Acme FO'', profile = fo, status = provisioning,
             encryptionKeyId = generateEncryptionKeyId host uuid,
             partitionKey = generatePartitionKey host uuid,
             createdAt = now, updatedAt = now \<rparr>"
  by (simp add: acmeProvisioned_def provision_empty getById_def acmeRequest_def)

lemma acmeActivated_getById:
  "getById (acmeActivated host uuid now) uuid =
     Some \<lparr> tenantId = uuid, name = ''Acme FO'', profile = fo, status = active,
             encryptionKeyId = generateEncryptionKeyId host uuid,
             partitionKey = generatePartitionKey host uuid,
             createdAt = now, updatedAt = now \<rparr>"
  by (simp add: acmeActivated_def acmeProvisioned_def provision_empty acmeRequest_def
      updateStatus_def validateStatusTransition_def getById_def)

text \<open>
  Claim C6. For a tenant of the registry, \<open>updateStatus\<close> returns normally exactly when
  the pair (current status, new status) is an edge of the transition graph of the
  specification, and then the tenant has the new status and the call's time as
  \<open>updatedAt\<close>; otherwise it throws and leaves the registry, hence the tenant's status and
  \<open>updatedAt\<close>, as it was. Over every sequence of registry calls (no \<open>randomUUID\<close>
  repeating the tenant's id) the statuses of the tenant form a path of the graph, and a
  terminated tenant stays terminated.
\<close>

theorem updateStatus_follows_transition_graph:
  assumes "getById reg tid = Some t" and "list_all (freshFor tid) cs"
  shows "updateStatus now reg tid s =
           (if (status t, s) \<in> transitionGraph
            then (Inr (),
                  reg\<lparr> tenants :=
                    AList.update tid (t\<lparr> status := s, updatedAt := now \<rparr>) (tenants reg) \<rparr>)
            else (Inl (Error (''Invalid status transition: '' @ statusName (status t)
                               @ '' -> '' @ statusName s)), reg))
         \<and> getById (snd (updateStatus now reg tid s)) tid =
             Some (if (status t, s) \<in> transitionGraph
                   then t\<lparr> status := s, updatedAt := now \<rparr> else t)
         \<and> successively lifecycleStep (statusHistory host tid reg cs)
         \<and> (status t = terminated \<longrightarrow>
              set (statusHistory host tid reg cs) = {Some terminated}
              \<and> fst (updateStatus now reg tid s) \<noteq> Inr ())"
proof -
  have m: "map_of (tenants reg) tid = Some t"
    using assms(1) by (simp add: getById_def)
  have r: "updateStatus now reg tid s =
           (if (status t, s) \<in> transitionGraph
            then (Inr (),
                  reg\<lparr> tenants :=
                    AList.update tid (t\<lparr> status := s, updatedAt := now \<rparr>) (tenants reg) \<rparr>)
            else (Inl (Error (''Invalid status transition: '' @ statusName (status t)
                               @ '' -> '' @ statusName s)), reg))"
    by (rule updateStatus_result [OF m])
  have g: "getById (snd (updateStatus now reg tid s)) tid =
             Some (if (status t, s) \<in> transitionGraph
                   then t\<lparr> status := s, updatedAt := now \<rparr> else t)"
    using m by (simp add: r getById_def update_conv')
  have p: "successively lifecycleStep (statusHistory host tid reg cs)"
    by (rule statusHistory_path [OF assms(2)])
  have a: "status t = terminated \<longrightarrow>
             set (statusHistory host tid reg cs) = {Some terminated}
             \<and> fst (updateStatus now reg tid s) \<noteq> Inr ()"
  proof
    assume dead: "status t = terminated"
    then have "statusOf reg tid = Some terminated"
      using assms(1) by (simp add: statusOf_def)
    then have "set (statusHistory host tid reg cs) = {Some terminated}"
      by (rule terminated_stays [OF assms(2)])
    moreover have "fst (updateStatus now reg tid s) \<noteq> Inr ()"
      using dead by (simp add: r transitionGraph_def)
    ultimately show "set (statusHistory host tid reg cs) = {Some terminated}
             \<and> fst (updateStatus now reg tid s) \<noteq> Inr ()" by simp
  qed
  from r g p a show ?thesis by blast
qed

theorem updateStatus_follows_transition_graph_witness:
  "fst (updateStatus 9 (acmeProvisioned plainHost ''t1'' 0) ''t1'' onboarding) = Inr ()
   \<and> getById (snd (updateStatus 9 (acmeProvisioned plainHost ''t1'' 0) ''t1'' onboarding)) ''t1''
       = Some (acmeTenant onboarding 9)
   \<and> updateStatus 9 (acmeProvisioned plainHost ''t1'' 0) ''t1'' active
       = (Inl (Error ''Invalid status transition: provisioning -> active''),
          acmeProvisioned plainHost ''t1'' 0)
   \<and> statusHistory plainHost ''t1'' (acmeProvisioned plainHost ''t1'' 0) acmeCalls
       = [Some provisioning, Some provisioning, Some onboarding, Some onboarding,
          Some terminated, Some terminated]
   \<and> successively lifecycleStep
         (statusHistory plainHost ''t1'' (acmeProvisioned plainHost ''t1'' 0) acmeCalls)
   \<and> set (statusHistory plainHost ''t1'' acmeTerminated acmeCalls) = {Some terminated}
   \<and> fst (updateStatus 9 acmeTerminated ''t1'' active) \<noteq> Inr ()"
proof -
  have h1: "getById (acmeProvisioned plainHost ''t1'' 0) ''t1'' = Some (acmeTenant provisioning 0)"
    by (simp add: acmeProvisioned_getById acmeTenant_def)
  have h2: "list_all (freshFor ''t1'') acmeCalls"
    by (simp add: acmeCalls_def)
  have h3: "getById acmeTerminated ''t1'' = Some (acmeTenant terminated 1)"
    by (simp add: acmeTerminated_def updateStatus_result [OF h1 [unfolded getById_def]]
        transitionGraph_def getById_def update_conv' acmeTenant_def)
  have hist: "statusHistory plainHost ''t1'' (acmeProvisioned plainHost ''t1'' 0) acmeCalls
       = [Some provisioning, Some provisioning, Some onboarding, Some onboarding,
          Some terminated, Some terminated]"
    by code_simp
  note a = updateStatus_follows_transition_graph [OF h1 h2, of 9 onboarding plainHost]
  note b = updateStatus_follows_transition_graph [OF h1 h2, of 9 active plainHost]
  note c = updateStatus_follows_transition_graph [OF h3 h2, of 9 active plainHost]
  have s1: "status (acmeTenant provisioning 0) = provisioning"
    and s3: "status (acmeTenant terminated 1) = terminated"
    by (simp_all add: acmeTenant_def)
  have e1: "(provisioning, onboarding) \<in> transitionGraph"
    and e2: "(provisioning, active) \<notin> transitionGraph"
    by (simp_all add: transitionGraph_def)
  from a [THEN conjunct1] have "fst (updateStatus 9 (acmeProvisioned plainHost ''t1'' 0) ''t1'' onboarding) = Inr ()"
    by (simp add: s1 e1)
  moreover from a [THEN conjunct2, THEN conjunct1] have "getById (snd (updateStatus 9 (acmeProvisioned plainHost ''t1'' 0) ''t1'' onboarding)) ''t1''
       = Some (acmeTenant onboarding 9)"
    by (simp add: s1 e1 acmeTenant_def)
  moreover from b [THEN conjunct1] have "updateStatus 9 (acmeProvisioned plainHost ''t1'' 0) ''t1'' active
       = (Inl (Error ''Invalid status transition: provisioning -> active''),
          acmeProvisioned plainHost ''t1'' 0)"
    by (simp add: s1 e2)
  moreover note hist
  moreover from a have "successively lifecycleStep
         (statusHistory plainHost ''t1'' (acmeProvisioned plainHost ''t1'' 0) acmeCalls)"
    by blast
  moreover from c s3 have "set (statusHistory plainHost ''t1'' acmeTerminated acmeCalls) = {Some terminated}
      \<and> fst (updateStatus 9 acmeTerminated ''t1'' active) \<noteq> Inr ()"
    by blast
  ultimately show ?thesis by blast
qed

lemma getById_None_iff: "getById reg tid = None \<longleftrightarrow> tid \<notin> fst ` set (tenants reg)"
  by (simp add: getById_def map_of_eq_None_iff)

text \<open>
  Claim C7. \<open>withTenantContext\<close> throws a \<open>TenantContextError\<close> with code
  \<open>TENANT_NOT_FOUND\<close> when the registry has no tenant with the id of the options, with
  code \<open>TENANT_NOT_ACTIVE\<close> when the tenant's status is not \<open>active\<close>, and otherwise runs
  \<open>fn\<close> under a context that \<open>getTenantContext\<close> returns and whose tenant is the registry's
  record for that id. In scenario A (any digest, id and clock) the freshly provisioned
  tenant is refused as not active, and after provisioning \<open>\<rightarrow>\<close> onboarding \<open>\<rightarrow>\<close> active the
  context's tenant has profile \<open>fo\<close>.
\<close>

theorem withTenantContext_resolves_tenant:
  "(optTenantId options \<notin> fst ` set (tenants reg) \<longrightarrow>
      withTenantContext now reg options fn =
        Inl (TenantContextError TENANT_NOT_FOUND
               (''Tenant '' @ optTenantId options @ '' does not exist'')))
   \<and> (getById reg (optTenantId options) = Some t \<and> status t \<noteq> active \<longrightarrow>
      withTenantContext now reg options fn =
        Inl (TenantContextError TENANT_NOT_ACTIVE
               (''Tenant '' @ optTenantId options @ '' is not active (status: ''
                 @ statusName (status t) @ '')'')))
   \<and> (getById reg (optTenantId options) = Some t \<and> status t = active \<longrightarrow>
      (\<exists>ctx. withTenantContext now reg options fn = fn (Some ctx)
             \<and> getTenantContext (Some ctx) = Inr ctx
             \<and> tenant ctx = t
             \<and> correlationId ctx = optCorrelationId options
             \<and> userId ctx = optUserId options))
   \<and> withTenantContext nowC (acmeProvisioned host uuid nowP) (acmeOptions uuid) fn =
        Inl (TenantContextError TENANT_NOT_ACTIVE
               (''Tenant '' @ uuid @ '' is not active (status: provisioning)''))
   \<and> withTenantContext nowC (acmeActivated host uuid nowP) (acmeOptions uuid)
        getCurrentTenantProfile = Inr fo"
proof -
  have nf: "optTenantId options \<notin> fst ` set (tenants reg) \<longrightarrow>
      withTenantContext now reg options fn =
        Inl (TenantContextError TENANT_NOT_FOUND
               (''Tenant '' @ optTenantId options @ '' does not exist''))"
    by (simp add: withTenantContext_def getById_None_iff [symmetric])
  have na: "getById reg (optTenantId options) = Some t \<and> status t \<noteq> active \<longrightarrow>
      withTenantContext now reg options fn =
        Inl (TenantContextError TENANT_NOT_ACTIVE
               (''Tenant '' @ optTenantId options @ '' is not active (status: ''
                 @ statusName (status t) @ '')''))"
    by (simp add: withTenantContext_def)
  have ok: "getById reg (optTenantId options) = Some t \<and> status t = active \<longrightarrow>
      (\<exists>ctx. withTenantContext now reg options fn = fn (Some ctx)
             \<and> getTenantContext (Some ctx) = Inr ctx
             \<and> tenant ctx = t
             \<and> correlationId ctx = optCorrelationId options
             \<and> userId ctx = optUserId options)"
    by (auto simp add: withTenantContext_def getTenantContext_def)
  have a1: "withTenantContext nowC (acmeProvisioned host uuid nowP) (acmeOptions uuid) fn =
        Inl (TenantContextError TENANT_NOT_ACTIVE
               (''Tenant '' @ uuid @ '' is not active (status: provisioning)''))"
    by (simp add: withTenantContext_def acmeProvisioned_getById acmeOptions_def)
  have a2: "withTenantContext nowC (acmeActivated host uuid nowP) (acmeOptions uuid)
        getCurrentTenantProfile = Inr fo"
    by (simp add: withTenantContext_def acmeActivated_getById acmeOptions_def
        getCurrentTenantProfile_def getTenantContext_def)
  from nf na ok a1 a2 show ?thesis by blast
qed


theorem withTenantContext_resolves_tenant_witness:
  "withTenantContext 5 emptyRegistry (acmeOptions ''t1'') getCurrentTenantId =
     Inl (TenantContextError TENANT_NOT_FOUND ''Tenant t1 does not exist'')
   \<and> withTenantContext 5 (acmeProvisioned plainHost ''t1'' 0) (acmeOptions ''t1'')
        getCurrentTenantId =
     Inl (TenantContextError TENANT_NOT_ACTIVE ''Tenant t1 is not active (status: provisioning)'')
   \<and> withTenantContext 5 (acmeActivated plainHost ''t1'' 0) (acmeOptions ''t1'')
        getCurrentTenantId = Inr ''t1''
   \<and> withTenantContext 5 (acmeActivated plainHost ''t1'' 0) (acmeOptions ''t1'')
        getCurrentTenantProfile = Inr fo"
proof -
  have h0: "optTenantId (acmeOptions ''t1'') \<notin> fst ` set (tenants emptyRegistry)"
    by (simp add: emptyRegistry_def)
  have h1: "getById (acmeProvisioned plainHost ''t1'' 0) (optTenantId (acmeOptions ''t1''))
              = Some (acmeTenant provisioning 0)
            \<and> status (acmeTenant provisioning 0) \<noteq> active"
    by (simp add: acmeProvisioned_getById acmeTenant_def acmeOptions_def)
  have h2: "getById (acmeActivated plainHost ''t1'' 0) (optTenantId (acmeOptions ''t1''))
              = Some (acmeTenant active 0)
            \<and> status (acmeTenant active 0) = active"
    by (simp add: acmeActivated_getById acmeTenant_def acmeOptions_def)
  note a = withTenantContext_resolves_tenant
    [where options = "acmeOptions ''t1''" and reg = emptyRegistry and now = 5
       and fn = getCurrentTenantId]
  note b = withTenantContext_resolves_tenant
    [where options = "acmeOptions ''t1''" and reg = "acmeProvisioned plainHost ''t1'' 0"
       and now = 5 and fn = getCurrentTenantId and t = "acmeTenant provisioning 0"]
  note c = withTenantContext_resolves_tenant
    [where options = "acmeOptions ''t1''" and reg = "acmeActivated plainHost ''t1'' 0"
       and now = 5 and fn = getCurrentTenantId and t = "acmeTenant active 0"
       and nowC = 5 and host = plainHost and uuid = "''t1''" and nowP = 0]
  from a h0 have "withTenantContext 5 emptyRegistry (acmeOptions ''t1'') getCurrentTenantId =
     Inl (TenantContextError TENANT_NOT_FOUND ''Tenant t1 does not exist'')"
    by (simp add: acmeOptions_def)
  moreover from b h1 have "withTenantContext 5 (acmeProvisioned plainHost ''t1'' 0)
        (acmeOptions ''t1'') getCurrentTenantId =
     Inl (TenantContextError TENANT_NOT_ACTIVE ''Tenant t1 is not active (status: provisioning)'')"
    by (simp add: acmeOptions_def acmeTenant_def)
  moreover have "withTenantContext 5 (acmeActivated plainHost ''t1'' 0) (acmeOptions ''t1'')
        getCurrentTenantId = Inr ''t1''"
  proof -
    from c h2 obtain ctx where
      "withTenantContext 5 (acmeActivated plainHost ''t1'' 0) (acmeOptions ''t1'')
         getCurrentTenantId = getCurrentTenantId (Some ctx)"
      and "getTenantContext (Some ctx) = Inr ctx" and "tenant ctx = acmeTenant active 0"
      by blast
    then show ?thesis
      by (simp add: getCurrentTenantId_def acmeTenant_def)
  qed
  moreover from c have "withTenantContext 5 (acmeActivated plainHost ''t1'' 0) (acmeOptions ''t1'')
        getCurrentTenantProfile = Inr fo"
    by blast
  ultimately show ?thesis by blast
qed







lemma getTenantKey_inj: "getTenantKey a = getTenantKey b \<longleftrightarrow> a = b"
  by (simp add: getTenantKey_def)


lemma truncate_extend: "EventData.truncate (EventData.extend d (DomainEvent.fields h)) = d"
  by (simp add: EventData.truncate_def EventData.extend_def)

lemma hash_extend: "hash (EventData.extend d (DomainEvent.fields h)) = h"
  by (simp add: EventData.extend_def DomainEvent.fields_def)

lemma previousHash_extend: "previousHash (EventData.extend d x) = previousHash d"
  by (simp add: EventData.extend_def)















lemma appendCall_returns:
  assumes "fst (appendCall host st c) = Inr ev"
  shows "tenantEvents (snd (appendCall host st c)) pk' =
           (if pk' = partitionKey (tenant (acContext c)) then tenantEvents st pk' @ [ev]
            else tenantEvents st pk')"
    and "map_of (lastHashes (snd (appendCall host st c))) (getTenantKey pk') =
           (if pk' = partitionKey (tenant (acContext c)) then Some (hash ev)
            else map_of (lastHashes st) (getTenantKey pk'))"
    and "previousHash ev =
           map_of (lastHashes st) (getTenantKey (partitionKey (tenant (acContext c))))"
    and "calculateHash host (EventData.truncate ev) = Inr (hash ev)"
  using assms
  by (auto simp add: appendCall_def append_def getTenantContext_def Let_def tenantEvents_def
      update_conv' getTenantKey_inj truncate_extend hash_extend previousHash_extend
      split: sum.splits option.splits if_splits)











lemma refs_never_throw: "Throws \<notin> set (map (serializeJSONProperty host) (map JStr refs))"
  by (induction refs) simp_all

lemma calculateHash_returns_iff:
  "(\<exists>x. calculateHash host d = Inr x) \<longleftrightarrow>
   serializeJSONProperty host (payload d) \<noteq> Throws
   \<and> Throws \<notin> snd ` set (map (\<lambda>(k, v). (k, serializeJSONProperty host v)) (metadata d))"
  using refs_never_throw [of host "evidenceRefs d"]
  by (simp add: calculateHash_def JSON_stringify_def eventDataObject_def Let_def
      split: serialized.splits option.splits)





lemma appendCall_unfold:
  "appendCall host st c =
     (case calculateHash host (callEventData st c) of
        Inl e \<Rightarrow>
          (Inl e,
           st\<lparr> events :=
                 (if map_of (events st) (getTenantKey (partitionKey (tenant (acContext c)))) = None
                  then AList.update (getTenantKey (partitionKey (tenant (acContext c)))) [] (events st)
                  else events st),
               aggregateSequences :=
                 AList.update
                   (aggregateKey (partitionKey (tenant (acContext c))) (acAggregateType c)
                      (acAggregateId c))
                   (sequence (callEventData st c)) (aggregateSequences st) \<rparr>)
      | Inr h \<Rightarrow>
          (Inr (EventData.extend (callEventData st c) (DomainEvent.fields h)),
           \<lparr> events =
               AList.update (getTenantKey (partitionKey (tenant (acContext c))))
                 (tenantEvents st (partitionKey (tenant (acContext c)))
                    @ [EventData.extend (callEventData st c) (DomainEvent.fields h)])
                 (events st),
             aggregateSequences =
               AList.update
                 (aggregateKey (partitionKey (tenant (acContext c))) (acAggregateType c)
                    (acAggregateId c))
                 (sequence (callEventData st c)) (aggregateSequences st),
             lastHashes =
               AList.update (getTenantKey (partitionKey (tenant (acContext c)))) h
                 (lastHashes st) \<rparr>))"
  by (simp add: appendCall_def append_def getTenantContext_def Let_def callEventData_def
      aggregateKey_def tenantEvents_def update_conv' update_last split: sum.splits)

lemma set_update_subset: "set (AList.update k v obj) \<subseteq> insert (k, v) (set obj)"
  by (induction obj) auto

lemma set_spread_subset: "set (spread base ov) \<subseteq> set base \<union> set ov"
  unfolding spread_def
proof (induction ov arbitrary: base)
  case Nil
  then show ?case by simp
next
  case (Cons p ov)
  obtain k v where p: "p = (k, v)" by (cases p)
  have "set (foldl (\<lambda>obj (k, v). AList.update k v obj) (AList.update k v base) ov)
          \<subseteq> set (AList.update k v base) \<union> set ov"
    by (rule Cons.IH)
  also have "\<dots> \<subseteq> insert (k, v) (set base) \<union> set ov"
    using set_update_subset [of k v base] by blast
  finally show ?case using p by auto
qed

lemma throws_iff:
  "Throws \<in> snd ` set (map (\<lambda>(k, v). (k, serializeJSONProperty host v)) obj)
     \<longleftrightarrow> (\<exists>p\<in>set obj. serializeJSONProperty host (snd p) = Throws)"
  by (induction obj) auto

lemma throws_spread:
  "Throws \<in> snd ` set (map (\<lambda>(k, v). (k, serializeJSONProperty host v)) (spread base ov))
   \<Longrightarrow> Throws \<in> snd ` set (map (\<lambda>(k, v). (k, serializeJSONProperty host v)) base)
       \<or> Throws \<in> snd ` set (map (\<lambda>(k, v). (k, serializeJSONProperty host v)) ov)"
  unfolding throws_iff using set_spread_subset [of base ov] by blast

lemma callEventData_hash:
  assumes "callSerializable host c"
  shows "\<exists>h. calculateHash host (callEventData st c) = Inr h"
proof -
  have "Throws \<notin> snd ` set (map (\<lambda>(k, v). (k, serializeJSONProperty host v))
            [(''correlationId'', JStr (correlationId (acContext c))),
             (''userId'', (case userId (acContext c) of None \<Rightarrow> JUndefined | Some u \<Rightarrow> JStr u)),
             (''source'', JStr ''ultrawealth-platform'')])"
    by (simp split: option.splits)
  moreover have "Throws \<notin> snd ` set (map (\<lambda>(k, v). (k, serializeJSONProperty host v)) (acMetadata c))"
    using assms by (simp add: callSerializable_def Let_def split: if_splits)
  ultimately have "Throws \<notin> snd ` set (map (\<lambda>(k, v). (k, serializeJSONProperty host v))
                      (metadata (callEventData st c)))"
    using throws_spread by (fastforce simp add: callEventData_def)
  moreover have "serializeJSONProperty host (payload (callEventData st c)) \<noteq> Throws"
    using assms by (simp add: callSerializable_def callEventData_def)
  ultimately show ?thesis
    by (simp add: calculateHash_returns_iff)
qed

lemma carries_callEventData: "carries c (EventData.extend (callEventData st c) (DomainEvent.fields h))"
  by (simp add: carries_def callEventData_def EventData.extend_def)

lemma appendCall_serializable:
  assumes "callSerializable host c"
  shows "\<exists>ev. fst (appendCall host st c) = Inr ev \<and> carries c ev
              \<and> sequence ev = sequence (callEventData st c)"
proof -
  from callEventData_hash [OF assms] obtain h where
    "calculateHash host (callEventData st c) = Inr h" by blast
  then have "fst (appendCall host st c) = Inr (EventData.extend (callEventData st c) (DomainEvent.fields h))"
    by (simp add: appendCall_unfold)
  then show ?thesis
    using carries_callEventData [of c st h] by (simp add: EventData.extend_def)
qed

lemma runAppends_events:
  "list_all (callSerializable host) cs \<Longrightarrow>
   \<exists>new. tenantEvents (runAppends host st cs) pk = tenantEvents st pk @ new
        \<and> list_all2 carries (filter (inPartition pk) cs) new"
proof (induction cs arbitrary: st)
  case Nil
  then show ?case by simp
next
  case (Cons c cs)
  from Cons.prems have c: "callSerializable host c" and cs: "list_all (callSerializable host) cs"
    by simp_all
  from appendCall_serializable [OF c] obtain ev where
    ev: "fst (appendCall host st c) = Inr ev" and car: "carries c ev" by blast
  from Cons.IH [OF cs, of "snd (appendCall host st c)"] obtain new where
    new: "tenantEvents (runAppends host (snd (appendCall host st c)) cs) pk
            = tenantEvents (snd (appendCall host st c)) pk @ new"
    and all: "list_all2 carries (filter (inPartition pk) cs) new" by blast
  show ?case
  proof (cases "inPartition pk c")
    case True
    then have "tenantEvents (snd (appendCall host st c)) pk = tenantEvents st pk @ [ev]"
      using appendCall_returns(1) [OF ev, of pk] by (simp add: inPartition_def)
    with new all car True show ?thesis by simp
  next
    case False
    then have "tenantEvents (snd (appendCall host st c)) pk = tenantEvents st pk"
      using appendCall_returns(1) [OF ev, of pk] by (auto simp add: inPartition_def)
    with new all False show ?thesis by simp
  qed
qed


lemma plainHost_inj: "inj (sha256 plainHost)"
  by (simp add: plainHost_def inj_on_def)









lemma jsonText_cases:
  "(\<exists>err. jsonText host e = Inl err) \<or> (\<exists>content. jsonText host e = Inr (Some content))"
  by (simp add: jsonText_def JSON_stringify_def eventDataObject_def Let_def
      split: serialized.splits)





lemma appendCall_serializable_state:
  assumes "callSerializable host c"
  shows "\<exists>h. appendCall host st c =
          (Inr (EventData.extend (callEventData st c) (DomainEvent.fields h)),
           \<lparr> events =
               AList.update (getTenantKey (partitionKey (tenant (acContext c))))
                 (tenantEvents st (partitionKey (tenant (acContext c)))
                    @ [EventData.extend (callEventData st c) (DomainEvent.fields h)])
                 (events st),
             aggregateSequences =
               AList.update
                 (aggregateKey (partitionKey (tenant (acContext c))) (acAggregateType c)
                    (acAggregateId c))
                 (sequence (callEventData st c)) (aggregateSequences st),
             lastHashes =
               AList.update (getTenantKey (partitionKey (tenant (acContext c)))) h
                 (lastHashes st) \<rparr>)"
proof -
  from callEventData_hash [OF assms] obtain h where
    "calculateHash host (callEventData st c) = Inr h" by blast
  then show ?thesis by (intro exI [of _ h]) (simp add: appendCall_unfold)
qed

text \<open>
  Claim C3 at an input where the code departs from it. \<open>append\<close> keeps the counter of an
  aggregate under the key \<open>partitionKey:aggregateType:aggregateId\<close>, so the aggregates
  (type \<open>A:B\<close>, id \<open>C\<close>) and (type \<open>A\<close>, id \<open>B:C\<close>) of one tenant share a counter: the
  first event of the second aggregate gets sequence number 2, not 1.
\<close>

theorem sequence_counter_shared_by_colliding_keys:
  "\<forall>host. \<exists>e1 e2. tenantEvents (colonStore host) ''pk_A'' = [e1, e2]
     \<and> (aggregateType e1, aggregateId e1) = (''A:B'', ''C'') \<and> sequence e1 = 1
     \<and> (aggregateType e2, aggregateId e2) = (''A'', ''B:C'') \<and> sequence e2 = 2"
proof
  fix host
  have s1: "callSerializable host colonCall1" and s2: "callSerializable host colonCall2"
    by (simp_all add: callSerializable_def colonCall1_def colonCall2_def)
  from appendCall_serializable_state [OF s1, of emptyEventStore] obtain h1 where
    a1: "appendCall host emptyEventStore colonCall1 =
          (Inr (EventData.extend (callEventData emptyEventStore colonCall1) (DomainEvent.fields h1)),
           \<lparr> events = [(''events:pk_A'',
                        [EventData.extend (callEventData emptyEventStore colonCall1) (DomainEvent.fields h1)])],
             aggregateSequences = [(''pk_A:A:B:C'', 1)],
             lastHashes = [(''events:pk_A'', h1)] \<rparr>)"
    by (auto simp add: emptyEventStore_def colonCall1_def contextA_def tenantA_def
        getTenantKey_def tenantEvents_def aggregateKey_def callEventData_def)
  let ?e1 = "EventData.extend (callEventData emptyEventStore colonCall1) (DomainEvent.fields h1)"
  let ?st1 = "\<lparr> events = [(''events:pk_A'', [?e1])],
             aggregateSequences = [(''pk_A:A:B:C'', 1::nat)],
             lastHashes = [(''events:pk_A'', h1)] \<rparr>"
  from appendCall_serializable_state [OF s2, of ?st1] obtain h2 where
    a2: "tenantEvents (snd (appendCall host ?st1 colonCall2)) ''pk_A'' =
           [?e1, EventData.extend (callEventData ?st1 colonCall2) (DomainEvent.fields h2)]"
    by (auto simp add: colonCall2_def contextA_def tenantA_def
        getTenantKey_def tenantEvents_def)
  let ?e2 = "EventData.extend (callEventData ?st1 colonCall2) (DomainEvent.fields h2)"
  have "tenantEvents (colonStore host) ''pk_A'' = [?e1, ?e2]"
    using a1 a2 by (simp add: colonStore_def)
  moreover have "(aggregateType ?e1, aggregateId ?e1) = (''A:B'', ''C'') \<and> sequence ?e1 = 1"
    by (simp add: EventData.extend_def callEventData_def colonCall1_def emptyEventStore_def)
  moreover have "(aggregateType ?e2, aggregateId ?e2) = (''A'', ''B:C'') \<and> sequence ?e2 = 2"
    by (simp add: EventData.extend_def callEventData_def colonCall2_def aggregateKey_def
        contextA_def tenantA_def)
  ultimately show "\<exists>e1 e2. tenantEvents (colonStore host) ''pk_A'' = [e1, e2]
     \<and> (aggregateType e1, aggregateId e1) = (''A:B'', ''C'') \<and> sequence e1 = 1
     \<and> (aggregateType e2, aggregateId e2) = (''A'', ''B:C'') \<and> sequence e2 = 2"
    by blast
qed

lemma getAggregateEvents_unfold:
  assumes "partitionKey (tenant ctx) \<noteq> []" and "aggType \<noteq> []" and "aggId \<noteq> []"
  shows "getAggregateEvents st (Some ctx) now aggType aggId d =
     (Inr (take 100 (filter (\<lambda>e. aggregateType e = aggType \<and> aggregateId e = aggId)
                       (tenantEvents st (partitionKey (tenant ctx))))), d)"
proof -
  have "matchesQuery (emptyQuery\<lparr> qAggregateType := Some aggType, qAggregateId := Some aggId \<rparr>)
          = (\<lambda>e. aggregateType e = aggType \<and> aggregateId e = aggId)"
    using assms by (auto simp add: matchesQuery_def emptyQuery_def truthy_def fun_eq_iff)
  then show ?thesis
    using assms
    by (simp add: getAggregateEvents_def query_def getCurrentPartitionKey_def getTenantContext_def
        validatePartitionKey_def tenantEvents_def Let_def emptyQuery_def truthy_def)
qed

lemma carries_entityCall:
  "list_all2 carries (map entityCall ns) es \<Longrightarrow>
   filter (\<lambda>e. aggregateType e = ''Entity'' \<and> aggregateId e = ''ent_1'') es = es
   \<and> length es = length ns"
proof (induction ns arbitrary: es)
  case Nil
  then show ?case by simp
next
  case (Cons n ns)
  then show ?case
    by (auto simp add: list_all2_Cons1 carries_def entityCall_def)
qed

lemma entityStore_events:
  "length (tenantEvents (entityStore host n) ''pk_A'') = n
   \<and> filter (\<lambda>e. aggregateType e = ''Entity'' \<and> aggregateId e = ''ent_1'')
        (tenantEvents (entityStore host n) ''pk_A'') = tenantEvents (entityStore host n) ''pk_A''"
proof -
  have "list_all (callSerializable host) (map entityCall [0..<n])"
    by (simp add: list_all_iff callSerializable_def entityCall_def)
  from runAppends_events [OF this, of emptyEventStore "''pk_A''"] obtain new where
    new: "tenantEvents (entityStore host n) ''pk_A'' = new"
    and all: "list_all2 carries (filter (inPartition ''pk_A'') (map entityCall [0..<n])) new"
    by (auto simp add: entityStore_def tenantEvents_def emptyEventStore_def)
  have "filter (inPartition ''pk_A'') (map entityCall [0..<n]) = map entityCall [0..<n]"
    by (simp add: filter_map o_def inPartition_def entityCall_def contextA_def tenantA_def)
  with all have "list_all2 carries (map entityCall [0..<n]) new" by simp
  from carries_entityCall [OF this] new show ?thesis by simp
qed

text \<open>
  Claim C8 at an input where the code departs from it. \<open>getAggregateEvents\<close> goes through
  \<open>query\<close>, whose page limit defaults to 100: of the 101 events appended to the aggregate
  \<open>ent_1\<close> it returns the first 100 and not the last one.
\<close>

theorem getAggregateEvents_stops_at_100:
  "\<forall>host now. length (tenantEvents (entityStore host 101) ''pk_A'') = 101
     \<and> list_all (\<lambda>e. aggregateType e = ''Entity'' \<and> aggregateId e = ''ent_1'')
          (tenantEvents (entityStore host 101) ''pk_A'')
     \<and> getAggregateEvents (entityStore host 101) (Some contextA) now ''Entity'' ''ent_1'' []
         = (Inr (take 100 (tenantEvents (entityStore host 101) ''pk_A'')), [])
     \<and> length (take 100 (tenantEvents (entityStore host 101) ''pk_A'')) = 100"
proof (intro allI)
  fix host now
  note e = entityStore_events [of host 101]
  have k: "partitionKey (tenant contextA) = ''pk_A''"
    by (simp add: contextA_def tenantA_def)
  have g: "getAggregateEvents (entityStore host 101) (Some contextA) now ''Entity'' ''ent_1'' []
         = (Inr (take 100 (tenantEvents (entityStore host 101) ''pk_A'')), [])"
    using getAggregateEvents_unfold [of contextA "''Entity''" "''ent_1''" "entityStore host 101" now "[]"] e
    by (simp add: k)
  have a: "list_all (\<lambda>e. aggregateType e = ''Entity'' \<and> aggregateId e = ''ent_1'')
          (tenantEvents (entityStore host 101) ''pk_A'')"
    using e [THEN conjunct2] by (simp add: filter_id_conv list_all_iff)
  from e g a show "length (tenantEvents (entityStore host 101) ''pk_A'') = 101
     \<and> list_all (\<lambda>e. aggregateType e = ''Entity'' \<and> aggregateId e = ''ent_1'')
          (tenantEvents (entityStore host 101) ''pk_A'')
     \<and> getAggregateEvents (entityStore host 101) (Some contextA) now ''Entity'' ''ent_1'' []
         = (Inr (take 100 (tenantEvents (entityStore host 101) ''pk_A'')), [])
     \<and> length (take 100 (tenantEvents (entityStore host 101) ''pk_A'')) = 100"
    by simp
qed












lemma startsWith_prefix: "startsWith s p \<longleftrightarrow> prefix p s"
  by (induction s p rule: startsWith.induct) auto

lemma indexOf_Some:
  "indexOf s p = Some i \<Longrightarrow> i + length p \<le> length s \<and> take (length p) (drop i s) = p"
proof (induction s arbitrary: i)
  case Nil
  then show ?case by (simp split: if_splits)
next
  case (Cons c cs)
  show ?case
  proof (cases "startsWith (c # cs) p")
    case True
    with Cons.prems have "i = 0" by simp
    moreover from True obtain r where "c # cs = p @ r"
      by (auto simp add: startsWith_prefix prefix_def)
    ultimately show ?thesis by (metis add_0 append_eq_conv_conj drop0 le_add1 length_append)
  next
    case False
    with Cons.prems obtain j where j: "indexOf cs p = Some j" and i: "i = Suc j"
      by (auto split: option.splits)
    from Cons.IH [OF j] i show ?thesis by simp
  qed
qed

lemma indexOf_None: "indexOf s p = None \<Longrightarrow> \<not> sublist p s"
proof (induction s)
  case Nil
  then show ?case by (simp split: if_splits)
next
  case (Cons c cs)
  then have "\<not> prefix p (c # cs)" and "\<not> sublist p cs"
    by (auto simp add: startsWith_prefix split: if_splits option.splits)
  then show ?case by (simp add: sublist_Cons_right)
qed

lemma occurrence_sublist:
  "i + length p \<le> length s \<Longrightarrow> take (length p) (drop i s) = p \<Longrightarrow> sublist p s"
proof -
  assume a: "i + length p \<le> length s" and b: "take (length p) (drop i s) = p"
  have "s = take i s @ take (length p) (drop i s) @ drop (length p) (drop i s)"
    by (simp only: append_take_drop_id)
  then have "s = take i s @ p @ drop (length p) (drop i s)"
    using b by simp
  then show ?thesis unfolding sublist_def by blast
qed

lemma includesStr_sublist: "includesStr s p \<longleftrightarrow> sublist p s"
proof
  assume "includesStr s p"
  then obtain i where "indexOf s p = Some i"
    by (auto simp add: includesStr_def)
  from indexOf_Some [OF this] show "sublist p s"
    by (auto intro: occurrence_sublist)
next
  assume "sublist p s"
  then show "includesStr s p"
    using indexOf_None [of s p] by (auto simp add: includesStr_def)
qed








text \<open>
  Claim C10. \<open>sanitizeContent\<close> replaces a forbidden term only where it stands between
  word boundaries, while \<open>checkAdvisoryLanguage\<close> flags it wherever it is a substring. In
  "Our recommendation stands" the term "recommend" occurs only inside a longer word: under
  the \<open>fo\<close> profile \<open>sanitizeContent\<close> returns the text unchanged and no removed term, and
  \<open>checkAdvisoryLanguage\<close> reports a violation for the text, so the output of
  \<open>sanitizeContent\<close> does not always pass \<open>checkAdvisoryLanguage\<close>.
\<close>

theorem sanitizeContent_misses_inner_occurrence:
  "sanitizeContent (Some contextA) ''Our recommendation stands''
     = Inr \<lparr> sanitized = ''Our recommendation stands'', removedTerms = [] \<rparr>
   \<and> map gvTerm (checkAdvisoryLanguage (GovernanceAdapter fo) now ''Our recommendation stands'')
       = [''recommend'']
   \<and> \<not> regexTest ''Our recommendation stands'' ''recommend''
   \<and> sublist ''recommend'' ''Our recommendation stands''
   \<and> (\<exists>content out. sanitizeContent (Some contextA) content = Inr out
          \<and> checkAdvisoryLanguage (GovernanceAdapter fo) now (sanitized out) \<noteq> [])"
proof -
  have s: "sanitizeContent (Some contextA) ''Our recommendation stands''
     = Inr \<lparr> sanitized = ''Our recommendation stands'', removedTerms = [] \<rparr>"
    by code_simp
  have c: "map gvTerm (checkAdvisoryLanguage (GovernanceAdapter fo) now ''Our recommendation stands'')
       = [''recommend'']"
    by code_simp
  have r: "\<not> regexTest ''Our recommendation stands'' ''recommend''"
    by code_simp
  have i: "sublist ''recommend'' ''Our recommendation stands''"
    unfolding includesStr_sublist [symmetric] by code_simp
  from c have "checkAdvisoryLanguage (GovernanceAdapter fo) now
                 (sanitized \<lparr> sanitized = ''Our recommendation stands'', removedTerms = [] \<rparr>) \<noteq> []"
    by auto
  with s have "\<exists>content out. sanitizeContent (Some contextA) content = Inr out
          \<and> checkAdvisoryLanguage (GovernanceAdapter fo) now (sanitized out) \<noteq> []"
    by blast
  with s c r i show ?thesis by blast
qed

end
